theory Spec2Isabelle
  imports Main "HOL-Library.AList"
begin

section \<open>The syntax tree\<close>

text \<open>
  The static reader of \<^verbatim>\<open>dephell_setuptools/_static.py\<close> works on the tree that
  \<^verbatim>\<open>ast.parse\<close> returns. The model starts at that tree: reading and parsing the file
  are outside it. The node classes are the ones the source names (\<^verbatim>\<open>ast.Str\<close>,
  \<^verbatim>\<open>ast.Name\<close>, \<^verbatim>\<open>ast.List\<close>, \<^verbatim>\<open>ast.Dict\<close>, \<^verbatim>\<open>ast.Call\<close>, \<^verbatim>\<open>ast.keyword\<close>,
  \<^verbatim>\<open>ast.FunctionDef\<close>, \<^verbatim>\<open>ast.If\<close>, \<^verbatim>\<open>ast.Expr\<close>, \<^verbatim>\<open>ast.Assign\<close>), with the fields
  the source reads.

  The source reads the attribute \<^verbatim>\<open>s\<close> of nodes that it has not tested, so the model
  keeps apart every node that has this attribute, for each parser the code runs on
  (\<^verbatim>\<open>ast.Str\<close> exists up to Python 3.13). Up to Python 3.7 a string literal is an
  \<^verbatim>\<open>ast.Str\<close> and a bytes literal an \<^verbatim>\<open>ast.Bytes\<close>, both with \<^verbatim>\<open>s\<close>; a number is an
  \<^verbatim>\<open>ast.Num\<close>, and \<^verbatim>\<open>None\<close>, \<^verbatim>\<open>True\<close> and \<^verbatim>\<open>False\<close> are \<^verbatim>\<open>ast.NameConstant\<close>,
  which have no \<^verbatim>\<open>s\<close>. From Python 3.8 on every literal is an \<^verbatim>\<open>ast.Constant\<close>, whose
  \<^verbatim>\<open>s\<close> is its value; \<^verbatim>\<open>isinstance(node, ast.Str)\<close> holds for it exactly when the
  value is a \<^verbatim>\<open>str\<close>, and \<^verbatim>\<open>isinstance(node, ast.Bytes)\<close> exactly when it is a
  \<^verbatim>\<open>bytes\<close>. So \<open>Str\<close> is a node for which \<^verbatim>\<open>isinstance(node, ast.Str)\<close> holds, with its
  string; \<open>Bytes\<close> is the same for \<^verbatim>\<open>ast.Bytes\<close>; and \<open>Constant\<close> is an
  \<^verbatim>\<open>ast.Constant\<close> of Python 3.8 and later whose value is neither (a number, \<^verbatim>\<open>None\<close>,
  \<^verbatim>\<open>True\<close>, \<^verbatim>\<open>False\<close>, \<^verbatim>\<open>...\<close>). Its number stands for the value up to the equality
  of Python, \<^verbatim>\<open>==\<close>, by which lists are compared and dictionary keys are told apart
  (\<^verbatim>\<open>1\<close>, \<^verbatim>\<open>1.0\<close> and \<^verbatim>\<open>True\<close> have the same number); no such value is equal to a
  \<^verbatim>\<open>str\<close> or a \<^verbatim>\<open>bytes\<close>.

  Every other expression class (the \<^verbatim>\<open>ast.Num\<close> and \<^verbatim>\<open>ast.NameConstant\<close> of the older
  parsers among them) is \<open>OtherExpr\<close> and every other statement class is \<open>OtherStmt\<close>
  (the number only tells two such nodes apart): the source never looks inside them, and
  none of them has an attribute \<^verbatim>\<open>s\<close>.

  A key of \<^verbatim>\<open>ast.Dict\<close> is \<^verbatim>\<open>None\<close> for an unpacked entry (\<^verbatim>\<open>{**d}\<close>), and the
  \<^verbatim>\<open>arg\<close> of a keyword is \<^verbatim>\<open>None\<close> for a double-star argument (\<^verbatim>\<open>f(**d)\<close>).
  Identifiers and string literals are compared for equality only; they are \<open>string\<close>s.
\<close>

datatype expr =
    Str string
  | Bytes string
  | Constant nat
  | Name string
  | List "expr list"
  | Dict dict_node
  | Call call_node
  | OtherExpr nat
and dict_node =
    DictNode (dict_keys: "expr option list") (dict_values: "expr list")
and call_node =
    CallNode (call_func: expr) (call_args: "expr list") (call_keywords: "keyword list")
and keyword =
    Keyword (kw_arg: "string option") (kw_value: expr)

datatype stmt =
    FunctionDef string "stmt list"
  | If expr "stmt list" "stmt list"
  | Expr expr
  | Assign "expr list" expr
  | OtherStmt nat

text \<open>
  The flattened body holds statements and, for expression statements, their inner
  expressions: an element is one or the other.
\<close>

datatype node = S stmt | E expr

text \<open>
  The failures of the two readers: \<^verbatim>\<open>AttributeError\<close> (reading \<^verbatim>\<open>.s\<close> of a node
  that has none), the \<^verbatim>\<open>RuntimeError\<close> that the command reader raises with its
  message, and \<^verbatim>\<open>UnicodeDecodeError\<close> (from \<^verbatim>\<open>bytes.decode\<close>). A decoded
  \<^verbatim>\<open>str\<close> is the list of its Unicode code points.
\<close>

type_synonym pystr = "nat list"

datatype error = AttributeError | RuntimeError pystr | UnicodeDecodeError

text \<open>
  The value of an attribute \<^verbatim>\<open>s\<close>: a \<^verbatim>\<open>str\<close>, a \<^verbatim>\<open>bytes\<close>, or the value of another
  constant (up to \<^verbatim>\<open>==\<close>, as in \<open>Constant\<close>).
\<close>

datatype sval = SStr string | SBytes string | SConst nat

text \<open>What a key of the result of \<^verbatim>\<open>StaticReader.content\<close> holds.\<close>

datatype field =
    NoneF
  | StrF string
  | ListF "sval list"
  | DictF "(sval \<times> sval list) list"


section \<open>The flattener and the call locator\<close>

text \<open>
  \<^verbatim>\<open>_get_body\<close> (lines 35-46). The branch of \<^verbatim>\<open>ast.FunctionDef\<close> ends with
  \<^verbatim>\<open>continue\<close>; the branch of \<^verbatim>\<open>ast.If\<close> does not, so after the flattened body of
  an \<^verbatim>\<open>if\<close> the loop goes on to the last line and yields the \<^verbatim>\<open>if\<close> statement
  itself (it is no \<^verbatim>\<open>ast.Expr\<close>). The generator raises nothing, so the order in which
  a consumer pulls from it is not visible and the model is the list it produces.
\<close>

fun get_body :: "stmt list \<Rightarrow> node list" where
  "get_body [] = []"
| "get_body (FunctionDef n b # rest) = get_body b @ get_body rest"
| "get_body (If t b e # rest) = get_body b @ S (If t b e) # get_body rest"
| "get_body (Expr v # rest) = E v # get_body rest"
| "get_body (s # rest) = S s # get_body rest"

text \<open>
  The loop of \<^verbatim>\<open>_get_call\<close> (lines 49-57) over the elements that \<^verbatim>\<open>_get_body\<close>
  yields: an element that is no \<^verbatim>\<open>ast.Call\<close>, or whose \<^verbatim>\<open>func\<close> is no
  \<^verbatim>\<open>ast.Name\<close>, or whose name is not \<^verbatim>\<open>'setup'\<close>, is skipped.
\<close>

fun get_call_loop :: "node list \<Rightarrow> call_node option" where
  "get_call_loop [] = None"
| "get_call_loop (E (Call c) # rest) =
     (case call_func c of
        Name f \<Rightarrow> (if f \<noteq> ''setup'' then get_call_loop rest else Some c)
      | _ \<Rightarrow> get_call_loop rest)"
| "get_call_loop (_ # rest) = get_call_loop rest"

definition get_call :: "stmt list \<Rightarrow> call_node option" where
  "get_call elements = get_call_loop (get_body elements)"


section \<open>Lookups in calls, bodies and mapping literals\<close>

text \<open>\<^verbatim>\<open>_find_in_call\<close> (lines 182-186): the first keyword whose \<^verbatim>\<open>arg\<close> is the name.\<close>

fun find_in_keywords :: "keyword list \<Rightarrow> string \<Rightarrow> expr option" where
  "find_in_keywords [] name = None"
| "find_in_keywords (k # ks) name =
     (if kw_arg k = Some name then Some (kw_value k) else find_in_keywords ks name)"

definition find_in_call :: "call_node \<Rightarrow> string \<Rightarrow> expr option" where
  "find_in_call call name = find_in_keywords (call_keywords call) name"

text \<open>
  \<^verbatim>\<open>_find_call_kwargs\<close> (lines 188-192): the loop runs over \<^verbatim>\<open>reversed(call.keywords)\<close>
  and returns at the first keyword whose \<^verbatim>\<open>arg\<close> is \<^verbatim>\<open>None\<close>.
\<close>

fun first_unnamed :: "keyword list \<Rightarrow> expr option" where
  "first_unnamed [] = None"
| "first_unnamed (k # ks) =
     (if kw_arg k = None then Some (kw_value k) else first_unnamed ks)"

definition find_call_kwargs :: "call_node \<Rightarrow> expr option" where
  "find_call_kwargs call = first_unnamed (rev (call_keywords call))"

text \<open>
  \<^verbatim>\<open>_find_variable_in_body\<close> (lines 194-203). The inner loop over the targets of one
  assignment says whether one of them is an \<^verbatim>\<open>ast.Name\<close> with the wanted \<^verbatim>\<open>id\<close>; the
  outer loop returns the assigned expression of the first such assignment.
\<close>

fun has_target :: "expr list \<Rightarrow> string \<Rightarrow> bool" where
  "has_target [] name = False"
| "has_target (Name i # ts) name = (if i = name then True else has_target ts name)"
| "has_target (_ # ts) name = has_target ts name"

fun find_variable_in_body :: "node list \<Rightarrow> string \<Rightarrow> expr option" where
  "find_variable_in_body [] name = None"
| "find_variable_in_body (S (Assign targets v) # rest) name =
     (if has_target targets name then Some v else find_variable_in_body rest name)"
| "find_variable_in_body (_ # rest) name = find_variable_in_body rest name"

text \<open>
  \<^verbatim>\<open>_find_in_dict\<close> (lines 205-208): the loop over \<^verbatim>\<open>zip(dict_.keys, dict_.values)\<close>
  returns the value of the first pair whose key is an \<^verbatim>\<open>ast.Str\<close> with \<^verbatim>\<open>s\<close> equal to
  the name.
\<close>

fun find_in_pairs :: "(expr option \<times> expr) list \<Rightarrow> string \<Rightarrow> expr option" where
  "find_in_pairs [] name = None"
| "find_in_pairs ((Some (Str s), v) # rest) name =
     (if s = name then Some v else find_in_pairs rest name)"
| "find_in_pairs (_ # rest) name = find_in_pairs rest name"

definition find_in_dict :: "dict_node \<Rightarrow> string \<Rightarrow> expr option" where
  "find_in_dict dict name = find_in_pairs (zip (dict_keys dict) (dict_values dict)) name"


section \<open>The three resolvers\<close>

text \<open>
  Reading the attribute \<^verbatim>\<open>s\<close>: \<^verbatim>\<open>ast.Str\<close>, \<^verbatim>\<open>ast.Bytes\<close> and every
  \<^verbatim>\<open>ast.Constant\<close> have it, on any other node (and on \<^verbatim>\<open>None\<close>, an unpacked key)
  Python raises \<^verbatim>\<open>AttributeError\<close>.
\<close>

fun attr_s :: "expr \<Rightarrow> error + sval" where
  "attr_s (Str s) = Inr (SStr s)"
| "attr_s (Bytes s) = Inr (SBytes s)"
| "attr_s (Constant v) = Inr (SConst v)"
| "attr_s _ = Inl AttributeError"

fun key_s :: "expr option \<Rightarrow> error + sval" where
  "key_s None = Inl AttributeError"
| "key_s (Some k) = attr_s k"

text \<open>
  The loops \<^verbatim>\<open>for el in value.elts: install_requires.append(el.s)\<close> (lines 87-88,
  93-94) and the comprehension \<^verbatim>\<open>[e.s for e in val.elts]\<close> (lines 131, 143): the
  first element with no \<^verbatim>\<open>s\<close> raises.
\<close>

fun elts_s :: "expr list \<Rightarrow> error + sval list" where
  "elts_s [] = Inr []"
| "elts_s (el # els) =
     (case attr_s el of
        Inl err \<Rightarrow> Inl err
      | Inr s \<Rightarrow> (case elts_s els of Inl err \<Rightarrow> Inl err | Inr ss \<Rightarrow> Inr (s # ss)))"

text \<open>
  \<^verbatim>\<open>_find_single_string\<close> (lines 147-180). Every bare \<^verbatim>\<open>return\<close> of the first part
  returns \<^verbatim>\<open>None\<close>, and so does line 172 when the looked-up expression is \<^verbatim>\<open>None\<close>:
  in the model the first part yields that expression, \<open>None\<close> standing for all of these
  returns.
\<close>

definition find_single_string :: "node list \<Rightarrow> call_node \<Rightarrow> string \<Rightarrow> string option" where
  "find_single_string body call name =
     (let found =
        (case find_in_call call name of
           Some v \<Rightarrow> Some v
         | None \<Rightarrow>
             (case find_call_kwargs call of
                Some (Name kwargs_id) \<Rightarrow>
                  (case find_variable_in_body body kwargs_id of
                     Some (Call variable) \<Rightarrow>
                       (case call_func variable of
                          Name f \<Rightarrow>
                            (if f \<noteq> ''dict'' then None else find_in_call variable name)
                        | _ \<Rightarrow> None)
                   | Some (Dict variable) \<Rightarrow> find_in_dict variable name
                   | _ \<Rightarrow> None)
              | _ \<Rightarrow> None))
      in case found of
           None \<Rightarrow> None
         | Some (Str s) \<Rightarrow> Some s
         | Some (Name i) \<Rightarrow>
             (case find_variable_in_body body i of Some (Str s) \<Rightarrow> Some s | _ \<Rightarrow> None)
         | Some _ \<Rightarrow> None)"

text \<open>
  \<^verbatim>\<open>_find_install_requires\<close> (lines 59-96). The returns of the first part all return
  the list that is still empty, as line 84 does.
\<close>

definition find_install_requires :: "node list \<Rightarrow> call_node \<Rightarrow> error + sval list" where
  "find_install_requires body call =
     (let found =
        (case find_in_call call ''install_requires'' of
           Some v \<Rightarrow> Some v
         | None \<Rightarrow>
             (case find_call_kwargs call of
                Some (Name kwargs_id) \<Rightarrow>
                  (case find_variable_in_body body kwargs_id of
                     Some (Call variable) \<Rightarrow>
                       (case call_func variable of
                          Name f \<Rightarrow>
                            (if f \<noteq> ''dict'' then None
                             else find_in_call variable ''install_requires'')
                        | _ \<Rightarrow> None)
                   | Some (Dict variable) \<Rightarrow> find_in_dict variable ''install_requires''
                   | _ \<Rightarrow> None)
              | _ \<Rightarrow> None))
      in case found of
           None \<Rightarrow> Inr []
         | Some (List elts) \<Rightarrow> elts_s elts
         | Some (Name i) \<Rightarrow>
             (case find_variable_in_body body i of
                Some (List elts) \<Rightarrow> elts_s elts
              | _ \<Rightarrow> Inr [])
         | Some _ \<Rightarrow> Inr [])"

text \<open>
  The loop over the entries of a mapping literal (lines 126-131 and, word for word,
  138-143), started with the dictionary built so far. A value that is a name is replaced
  by what the name is bound to (\<^verbatim>\<open>None\<close> when it is unbound). For a list, Python
  evaluates the right-hand side \<^verbatim>\<open>[e.s for e in val.elts]\<close> first and \<^verbatim>\<open>key.s\<close> after
  it; the store keeps the place of a key that is already there and appends a new one,
  as \<open>AList.update\<close> does.
\<close>

fun extras_loop ::
  "node list \<Rightarrow> (expr option \<times> expr) list \<Rightarrow> (sval \<times> sval list) list
     \<Rightarrow> error + (sval \<times> sval list) list" where
  "extras_loop body [] extras = Inr extras"
| "extras_loop body ((key, val) # rest) extras =
     (let val' = (case val of Name i \<Rightarrow> find_variable_in_body body i | _ \<Rightarrow> Some val)
      in case val' of
           Some (List elts) \<Rightarrow>
             (case elts_s elts of
                Inl err \<Rightarrow> Inl err
              | Inr ss \<Rightarrow>
                  (case key_s key of
                     Inl err \<Rightarrow> Inl err
                   | Inr k \<Rightarrow> extras_loop body rest (AList.update k ss extras)))
         | _ \<Rightarrow> extras_loop body rest extras)"

text \<open>\<^verbatim>\<open>_find_extras_require\<close> (lines 98-145).\<close>

definition find_extras_require ::
  "node list \<Rightarrow> call_node \<Rightarrow> error + (sval \<times> sval list) list" where
  "find_extras_require body call =
     (let found =
        (case find_in_call call ''extras_require'' of
           Some v \<Rightarrow> Some v
         | None \<Rightarrow>
             (case find_call_kwargs call of
                Some (Name kwargs_id) \<Rightarrow>
                  (case find_variable_in_body body kwargs_id of
                     Some (Call variable) \<Rightarrow>
                       (case call_func variable of
                          Name f \<Rightarrow>
                            (if f \<noteq> ''dict'' then None
                             else find_in_call variable ''extras_require'')
                        | _ \<Rightarrow> None)
                   | Some (Dict variable) \<Rightarrow> find_in_dict variable ''extras_require''
                   | _ \<Rightarrow> None)
              | _ \<Rightarrow> None))
      in case found of
           None \<Rightarrow> Inr []
         | Some (Dict d) \<Rightarrow> extras_loop body (zip (dict_keys d) (dict_values d)) []
         | Some (Name i) \<Rightarrow>
             (case find_variable_in_body body i of
                Some (Dict d) \<Rightarrow> extras_loop body (zip (dict_keys d) (dict_values d)) []
              | _ \<Rightarrow> Inr [])
         | Some _ \<Rightarrow> Inr [])"


section \<open>The assembled result\<close>

text \<open>
  \<^verbatim>\<open>StaticReader.content\<close> (lines 9-21), on the parsed tree. \<^verbatim>\<open>self.call\<close> is
  \<^verbatim>\<open>_get_call(self.tree)\<close> and \<^verbatim>\<open>self.body\<close> is \<^verbatim>\<open>_get_body(self.tree)\<close>. The
  arguments of \<^verbatim>\<open>dict(...)\<close> are evaluated in the order written, so a failure of the
  fourth or fifth resolver is the failure of the whole. The Python \<^verbatim>\<open>dict\<close> is the list
  of its items in insertion order.
\<close>

definition of_string_option :: "string option \<Rightarrow> field" where
  "of_string_option r = (case r of None \<Rightarrow> NoneF | Some s \<Rightarrow> StrF s)"

definition content :: "stmt list \<Rightarrow> error + (string \<times> field) list option" where
  "content tree =
     (case get_call tree of
        None \<Rightarrow> Inr None
      | Some call \<Rightarrow>
          (let body = get_body tree;
               name = find_single_string body call ''name'';
               version = find_single_string body call ''version'';
               python_requires = find_single_string body call ''python_requires''
           in case find_install_requires body call of
                Inl err \<Rightarrow> Inl err
              | Inr install_requires \<Rightarrow>
                  (case find_extras_require body call of
                     Inl err \<Rightarrow> Inl err
                   | Inr extras_require \<Rightarrow>
                       Inr (Some
                         [(''name'', of_string_option name),
                          (''version'', of_string_option version),
                          (''python_requires'', of_string_option python_requires),
                          (''install_requires'', ListF install_requires),
                          (''extras_require'', DictF extras_require)]))))"


section \<open>The command reader\<close>

text \<open>
  \<^verbatim>\<open>CommandReader.content\<close> (\<^verbatim>\<open>dephell_setuptools/_cmd.py\<close>, lines 29-53) from the
  point where \<^verbatim>\<open>subprocess.run\<close> has returned. What the model takes from the finished
  child is its return code and the outcome of \<^verbatim>\<open>result.stderr.decode()\<close>: the decoded
  \<^verbatim>\<open>str\<close>, or the \<^verbatim>\<open>UnicodeDecodeError\<close> that \<^verbatim>\<open>bytes.decode\<close> raises on bytes that
  are not UTF-8.
\<close>

record completed_process =
  returncode :: int
  stderr_decode :: "error + pystr"

text \<open>
  \<^verbatim>\<open>str.strip()\<close> removes the leading and the trailing code points for which
  \<^verbatim>\<open>str.isspace\<close> holds: the table of CPython's \<^verbatim>\<open>_PyUnicode_IsWhitespace\<close>.
\<close>

definition isspace :: "nat \<Rightarrow> bool" where
  "isspace c =
     ((9 \<le> c \<and> c \<le> 13) \<or> (28 \<le> c \<and> c \<le> 32) \<or> c = 133 \<or> c = 160 \<or> c = 5760 \<or>
      (8192 \<le> c \<and> c \<le> 8202) \<or> c = 8232 \<or> c = 8233 \<or> c = 8239 \<or> c = 8287 \<or>
      c = 12288)"

definition strip :: "pystr \<Rightarrow> pystr" where
  "strip t = rev (dropWhile isspace (rev (dropWhile isspace t)))"

text \<open>
  \<^verbatim>\<open>str.split('\n')\<close>: the pieces between the line feeds (code point 10), one more
  than there are line feeds, so the list is never empty and \<^verbatim>\<open>[-1]\<close> is its last
  element.
\<close>

fun split_nl :: "pystr \<Rightarrow> pystr list" where
  "split_nl [] = [[]]"
| "split_nl (c # cs) =
     (if c = 10 then [] # split_nl cs
      else (c # hd (split_nl cs)) # tl (split_nl cs))"

text \<open>
  Lines 48-53. When the return code is zero the method goes on to \<^verbatim>\<open>json.load\<close> and
  \<^verbatim>\<open>self._clean\<close>, which are not in this file: their outcome is the parameter
  \<open>loaded\<close>.
\<close>

definition cmd_content :: "completed_process \<Rightarrow> error + 'a \<Rightarrow> error + 'a" where
  "cmd_content result loaded =
     (if returncode result \<noteq> 0 then
        (case stderr_decode result of
           Inl err \<Rightarrow> Inl err
         | Inr t \<Rightarrow> Inl (RuntimeError (last (split_nl (strip t)))))
      else loaded)"


section \<open>Notions of the specification\<close>

text \<open>
  An entry-point call is a call expression whose callee is the bare name
  \<^verbatim>\<open>setup\<close>; an element of the flattened body is one when it is such an expression.
\<close>

fun is_setup_call :: "call_node \<Rightarrow> bool" where
  "is_setup_call (CallNode (Name f) a ks) = (f = ''setup'')"
| "is_setup_call _ = False"

fun is_setup_node :: "node \<Rightarrow> bool" where
  "is_setup_node (E (Call c)) = is_setup_call c"
| "is_setup_node _ = False"

text \<open>An element that is an assignment with the bare name among its targets.\<close>

fun assigns :: "string \<Rightarrow> node \<Rightarrow> bool" where
  "assigns name (S (Assign targets v)) = (Name name \<in> set targets)"
| "assigns name _ = False"

text \<open>
  The flattener as the specification words it: the body of a function definition and
  the body of an \<^verbatim>\<open>if\<close> stand in the place of the statement, an expression statement
  gives its expression, any other statement is kept.
\<close>

fun spec_flatten :: "stmt list \<Rightarrow> node list" where
  "spec_flatten [] = []"
| "spec_flatten (FunctionDef n b # rest) = spec_flatten b @ spec_flatten rest"
| "spec_flatten (If t b e # rest) = spec_flatten b @ spec_flatten rest"
| "spec_flatten (Expr v # rest) = E v # spec_flatten rest"
| "spec_flatten (s # rest) = S s # spec_flatten rest"

fun is_if_node :: "node \<Rightarrow> bool" where
  "is_if_node (S (If t b e)) = True"
| "is_if_node _ = False"

text \<open>A keyword argument with a name, and a key of a mapping literal that is a string literal.\<close>

fun is_named :: "keyword \<Rightarrow> bool" where
  "is_named (Keyword None v) = False"
| "is_named (Keyword (Some a) v) = True"

fun is_str_key :: "expr option \<times> expr \<Rightarrow> bool" where
  "is_str_key (Some (Str s), v) = True"
| "is_str_key _ = False"

text \<open>
  The lines of a stream of text: each line feed ends a line, and what follows the last
  line feed is a line when it is not empty. The last line of the stream is the last of
  these (the empty text, for an empty stream).
\<close>

definition stream_lines :: "pystr \<Rightarrow> pystr list" where
  "stream_lines t = (if t \<noteq> [] \<and> last t = 10 then butlast (split_nl t) else split_nl t)"

definition last_line :: "pystr \<Rightarrow> pystr" where
  "last_line t = last (stream_lines t)"

text \<open>
  What a variable has to be bound to for the double-star hop to go on: a mapping literal
  or a call of the bare name \<^verbatim>\<open>dict\<close>. An unbound variable is neither.
\<close>

fun is_dict_shaped :: "expr option \<Rightarrow> bool" where
  "is_dict_shaped (Some (Dict d)) = True"
| "is_dict_shaped (Some (Call c)) = (call_func c = Name ''dict'')"
| "is_dict_shaped _ = False"











section \<open>The call locator returns the first entry-point call\<close>

lemma is_setup_call_iff: "is_setup_call c \<longleftrightarrow> call_func c = Name ''setup''"
  by (cases c rule: is_setup_call.cases) auto

lemma get_call_loop_miss:
  "\<not> is_setup_node n \<Longrightarrow> get_call_loop (n # rest) = get_call_loop rest"
  by (cases "(n # rest)" rule: get_call_loop.cases)
     (auto simp: is_setup_call_iff split: expr.splits)

lemma get_call_loop_hit:
  "is_setup_call c \<Longrightarrow> get_call_loop (E (Call c) # post) = Some c"
  by (auto simp: is_setup_call_iff split: expr.splits)

lemma is_setup_nodeE:
  "is_setup_node n \<Longrightarrow> \<exists>c. n = E (Call c) \<and> is_setup_call c"
  by (cases n rule: is_setup_node.cases) auto

lemma get_call_loop_None:
  "get_call_loop ns = None \<longleftrightarrow> (\<forall>n \<in> set ns. \<not> is_setup_node n)"
proof (induction ns)
  case Nil
  show ?case by simp
next
  case (Cons n ns)
  show ?case
  proof (cases "is_setup_node n")
    case True
    then obtain c where "n = E (Call c)" "is_setup_call c"
      using is_setup_nodeE by blast
    with True show ?thesis by (simp add: get_call_loop_hit del: get_call_loop.simps)
  next
    case False
    with Cons show ?thesis by (simp add: get_call_loop_miss del: get_call_loop.simps)
  qed
qed

lemma get_call_loop_skip:
  "\<forall>n \<in> set pre. \<not> is_setup_node n \<Longrightarrow> get_call_loop (pre @ ns) = get_call_loop ns"
  by (induction pre) (simp_all add: get_call_loop_miss del: get_call_loop.simps)

lemma get_call_loop_Some:
  "get_call_loop ns = Some c \<Longrightarrow>
     \<exists>pre post. ns = pre @ E (Call c) # post \<and> is_setup_call c \<and>
       (\<forall>n \<in> set pre. \<not> is_setup_node n)"
proof (induction ns)
  case Nil
  then show ?case by simp
next
  case (Cons n ns)
  show ?case
  proof (cases "is_setup_node n")
    case True
    then obtain d where d: "n = E (Call d)" "is_setup_call d"
      using is_setup_nodeE by blast
    with Cons.prems have "d = c" by (simp add: get_call_loop_hit del: get_call_loop.simps)
    with d have "n # ns = [] @ E (Call c) # ns \<and> is_setup_call c \<and>
       (\<forall>n \<in> set []. \<not> is_setup_node n)" by simp
    then show ?thesis by blast
  next
    case False
    with Cons.prems have "get_call_loop ns = Some c"
      by (simp add: get_call_loop_miss del: get_call_loop.simps)
    with Cons.IH obtain pre post where
      "ns = pre @ E (Call c) # post" "is_setup_call c" "\<forall>n \<in> set pre. \<not> is_setup_node n"
      by blast
    with False have "n # ns = (n # pre) @ E (Call c) # post \<and> is_setup_call c \<and>
       (\<forall>m \<in> set (n # pre). \<not> is_setup_node m)" by simp
    then show ?thesis by blast
  qed
qed

text \<open>
  Claim C4. The call locator returns nothing exactly when no element of the flattened
  body is an entry-point call (a call expression whose callee is the bare name
  \<^verbatim>\<open>setup\<close>), and it returns the call \<open>c\<close> exactly when the flattened body is some
  elements that are no entry-point calls, then \<open>c\<close>, an entry-point call, then any
  elements at all: what follows the first match, later calls of \<^verbatim>\<open>setup\<close> included,
  has no part in the answer.
\<close>

theorem get_call_first_match:
  "(get_call tree = None \<longleftrightarrow> (\<forall>n \<in> set (get_body tree). \<not> is_setup_node n)) \<and>
   (\<forall>c. get_call tree = Some c \<longleftrightarrow>
      (\<exists>pre post. get_body tree = pre @ E (Call c) # post \<and> is_setup_call c \<and>
         (\<forall>n \<in> set pre. \<not> is_setup_node n)))"
proof (intro conjI allI iffI)
  assume "get_call tree = None"
  then show "\<forall>n \<in> set (get_body tree). \<not> is_setup_node n"
    by (simp add: get_call_def get_call_loop_None)
next
  assume "\<forall>n \<in> set (get_body tree). \<not> is_setup_node n"
  then show "get_call tree = None"
    by (simp add: get_call_def get_call_loop_None)
next
  fix c
  assume "get_call tree = Some c"
  then show "\<exists>pre post. get_body tree = pre @ E (Call c) # post \<and> is_setup_call c \<and>
         (\<forall>n \<in> set pre. \<not> is_setup_node n)"
    unfolding get_call_def by (rule get_call_loop_Some)
next
  fix c
  assume "\<exists>pre post. get_body tree = pre @ E (Call c) # post \<and> is_setup_call c \<and>
         (\<forall>n \<in> set pre. \<not> is_setup_node n)"
  then obtain pre post where "get_body tree = pre @ E (Call c) # post" "is_setup_call c"
    "\<forall>n \<in> set pre. \<not> is_setup_node n" by blast
  then show "get_call tree = Some c"
    by (simp add: get_call_def get_call_loop_skip get_call_loop_hit del: get_call_loop.simps)
qed

text \<open>
  The theorem at two scripts: \<^verbatim>\<open>x\<close> alone, where nothing is found, and
  \<^verbatim>\<open>v = '1'; other(); setup(name='a'); setup(name='b')\<close>, where the first call of
  \<^verbatim>\<open>setup\<close> is found.
\<close>

theorem get_call_first_match_witness:
  "get_call [Expr (Name ''x'')] = None \<and>
   get_call
     [Assign [Name ''v''] (Str ''1''),
      Expr (Call (CallNode (Name ''other'') [] [])),
      Expr (Call (CallNode (Name ''setup'') [] [Keyword (Some ''name'') (Str ''a'')])),
      Expr (Call (CallNode (Name ''setup'') [] [Keyword (Some ''name'') (Str ''b'')]))]
     = Some (CallNode (Name ''setup'') [] [Keyword (Some ''name'') (Str ''a'')])"
proof -
  let ?c = "CallNode (Name ''setup'') [] [Keyword (Some ''name'') (Str ''a'')]"
  let ?t = "[Assign [Name ''v''] (Str ''1''),
      Expr (Call (CallNode (Name ''other'') [] [])),
      Expr (Call ?c),
      Expr (Call (CallNode (Name ''setup'') [] [Keyword (Some ''name'') (Str ''b'')]))]"
  have none: "\<forall>n \<in> set (get_body [Expr (Name ''x'')]). \<not> is_setup_node n" by simp
  have some: "\<exists>pre post. get_body ?t = pre @ E (Call ?c) # post \<and> is_setup_call ?c \<and>
         (\<forall>n \<in> set pre. \<not> is_setup_node n)"
    by (rule exI [of _ "[S (Assign [Name ''v''] (Str ''1'')), E (Call (CallNode (Name ''other'') [] []))]"],
        rule exI [of _ "[E (Call (CallNode (Name ''setup'') [] [Keyword (Some ''name'') (Str ''b'')]))]"])
       simp
  from none some show ?thesis
    using get_call_first_match [of "[Expr (Name ''x'')]"]
          get_call_first_match [of ?t]
    by blast
qed

section \<open>Variable lookup: the first assignment wins\<close>

lemma has_target_iff: "has_target targets name \<longleftrightarrow> Name name \<in> set targets"
  by (induction targets name rule: has_target.induct) auto

lemma find_variable_miss:
  "\<not> assigns name n \<Longrightarrow> find_variable_in_body (n # rest) name = find_variable_in_body rest name"
  by (cases "(n # rest, name)" rule: find_variable_in_body.cases)
     (auto simp: has_target_iff)

lemma find_variable_hit:
  "Name name \<in> set targets \<Longrightarrow>
     find_variable_in_body (S (Assign targets v) # rest) name = Some v"
  by (simp add: has_target_iff)

lemma find_variable_skip:
  "\<forall>n \<in> set pre. \<not> assigns name n \<Longrightarrow>
     find_variable_in_body (pre @ ns) name = find_variable_in_body ns name"
  by (induction pre) (simp_all add: find_variable_miss del: find_variable_in_body.simps)

lemma find_variable_None:
  "find_variable_in_body ns name = None \<longleftrightarrow> (\<forall>n \<in> set ns. \<not> assigns name n)"
proof (induction ns)
  case Nil
  show ?case by simp
next
  case (Cons n ns)
  show ?case
  proof (cases "assigns name n")
    case True
    then obtain targets v where "n = S (Assign targets v)" "Name name \<in> set targets"
      by (cases "(name, n)" rule: assigns.cases) auto
    with True show ?thesis by (simp add: find_variable_hit del: find_variable_in_body.simps)
  next
    case False
    with Cons show ?thesis by (simp add: find_variable_miss del: find_variable_in_body.simps)
  qed
qed

lemma find_single_string_alias:
  "find_in_call call field = Some (Name i) \<Longrightarrow>
     find_single_string body call field =
       (case find_variable_in_body body i of Some (Str s) \<Rightarrow> Some s | _ \<Rightarrow> None)"
  by (simp add: find_single_string_def)

text \<open>
  Claim C5. The lookup of a variable matches the bare name exactly and returns the
  expression of the first assignment to it from the start of the flattened body, whatever
  follows that assignment (later assignments to the same name, nearer to the call,
  included); with no assignment to the name it returns nothing. The alias hop of a
  single-string field goes through this lookup, and \<^verbatim>\<open>version = "2.0"\<close> followed by
  \<^verbatim>\<open>setup(version=version)\<close> resolves the version to \<^verbatim>\<open>"2.0"\<close>.
\<close>

theorem first_assignment_wins:
  "(\<forall>pre targets v post name.
      Name name \<in> set targets \<and> (\<forall>n \<in> set pre. \<not> assigns name n) \<longrightarrow>
      find_variable_in_body (pre @ S (Assign targets v) # post) name = Some v) \<and>
   (\<forall>body name. (\<forall>n \<in> set body. \<not> assigns name n) \<longrightarrow>
      find_variable_in_body body name = None) \<and>
   (\<forall>call field i pre targets s post.
      find_in_call call field = Some (Name i) \<and>
      Name i \<in> set targets \<and> (\<forall>n \<in> set pre. \<not> assigns i n) \<longrightarrow>
      find_single_string (pre @ S (Assign targets (Str s)) # post) call field = Some s) \<and>
   content
     [Assign [Name ''version''] (Str ''2.0''),
      Expr (Call (CallNode (Name ''setup'') [] [Keyword (Some ''version'') (Name ''version'')]))]
   = Inr (Some
      [(''name'', NoneF), (''version'', StrF ''2.0''), (''python_requires'', NoneF),
       (''install_requires'', ListF []), (''extras_require'', DictF [])])"
proof (intro conjI allI impI)
  fix pre targets v post name
  assume "Name name \<in> set targets \<and> (\<forall>n \<in> set pre. \<not> assigns name n)"
  then show "find_variable_in_body (pre @ S (Assign targets v) # post) name = Some v"
    by (simp add: find_variable_skip find_variable_hit del: find_variable_in_body.simps)
next
  fix body name
  assume "\<forall>n \<in> set body. \<not> assigns name n"
  then show "find_variable_in_body body name = None"
    by (simp add: find_variable_None)
next
  fix call field i pre targets s post
  assume a: "find_in_call call field = Some (Name i) \<and>
      Name i \<in> set targets \<and> (\<forall>n \<in> set pre. \<not> assigns i n)"
  then have "find_variable_in_body (pre @ S (Assign targets (Str s)) # post) i = Some (Str s)"
    by (simp add: find_variable_skip find_variable_hit del: find_variable_in_body.simps)
  with a show "find_single_string (pre @ S (Assign targets (Str s)) # post) call field = Some s"
    by (simp add: find_single_string_alias)
next
  show "content
     [Assign [Name ''version''] (Str ''2.0''),
      Expr (Call (CallNode (Name ''setup'') [] [Keyword (Some ''version'') (Name ''version'')]))]
   = Inr (Some
      [(''name'', NoneF), (''version'', StrF ''2.0''), (''python_requires'', NoneF),
       (''install_requires'', ListF []), (''extras_require'', DictF [])])"
    by (simp add: content_def get_call_def find_single_string_def find_install_requires_def
        find_extras_require_def find_in_call_def find_call_kwargs_def of_string_option_def)
qed

text \<open>
  The theorem at \<^verbatim>\<open>name = "pkg"; version = "2.0"; version = "3.0"; setup(version=version)\<close>:
  the second assignment to \<^verbatim>\<open>version\<close> is the nearer one and the first one is returned.
\<close>

theorem first_assignment_wins_witness:
  "find_variable_in_body
     [S (Assign [Name ''name''] (Str ''pkg'')),
      S (Assign [Name ''version''] (Str ''2.0'')),
      S (Assign [Name ''version''] (Str ''3.0'')),
      E (Call (CallNode (Name ''setup'') [] [Keyword (Some ''version'') (Name ''version'')]))]
     ''version'' = Some (Str ''2.0'') \<and>
   find_variable_in_body [S (Assign [Name ''name''] (Str ''pkg''))] ''version'' = None \<and>
   find_single_string
     [S (Assign [Name ''name''] (Str ''pkg'')),
      S (Assign [Name ''version''] (Str ''2.0'')),
      S (Assign [Name ''version''] (Str ''3.0'')),
      E (Call (CallNode (Name ''setup'') [] [Keyword (Some ''version'') (Name ''version'')]))]
     (CallNode (Name ''setup'') [] [Keyword (Some ''version'') (Name ''version'')])
     ''version'' = Some ''2.0''"
proof -
  let ?call = "CallNode (Name ''setup'') [] [Keyword (Some ''version'') (Name ''version'')]"
  let ?pre = "[S (Assign [Name ''name''] (Str ''pkg''))]"
  let ?post = "[S (Assign [Name ''version''] (Str ''3.0'')), E (Call ?call)]"
  have h1: "Name ''version'' \<in> set [Name ''version''] \<and> (\<forall>n \<in> set ?pre. \<not> assigns ''version'' n)"
    by simp
  have h2: "\<forall>n \<in> set ?pre. \<not> assigns ''version'' n" by simp
  have h3: "find_in_call ?call ''version'' = Some (Name ''version'') \<and>
      Name ''version'' \<in> set [Name ''version''] \<and> (\<forall>n \<in> set ?pre. \<not> assigns ''version'' n)"
    by (simp add: find_in_call_def)
  note t = first_assignment_wins
  from t have c1: "find_variable_in_body (?pre @ S (Assign [Name ''version''] (Str ''2.0'')) # ?post) ''version'' = Some (Str ''2.0'')"
    using h1 by blast
  from t have c2: "find_variable_in_body ?pre ''version'' = None"
    using h2 by blast
  from t have c3: "find_single_string (?pre @ S (Assign [Name ''version''] (Str ''2.0'')) # ?post) ?call ''version'' = Some ''2.0''"
    using h3 by blast
  from c1 c2 c3 show ?thesis by simp
qed

section \<open>Lookups in keyword lists and mapping literals\<close>

lemma find_in_keywords_filter_named:
  "find_in_keywords (filter is_named ks) name = find_in_keywords ks name"
proof (induction ks)
  case Nil
  show ?case by simp
next
  case (Cons k ks)
  then show ?case by (cases k rule: is_named.cases) simp_all
qed

lemma first_unnamed_named:
  "\<forall>k \<in> set ks. is_named k \<Longrightarrow> first_unnamed (ks @ rest) = first_unnamed rest"
proof (induction ks)
  case Nil
  show ?case by simp
next
  case (Cons k ks)
  then show ?case by (cases k rule: is_named.cases) simp_all
qed

lemma find_call_kwargs_last:
  "\<forall>k \<in> set post. is_named k \<Longrightarrow>
     find_call_kwargs (CallNode f a (pre @ Keyword None v # post)) = Some v"
  by (simp add: find_call_kwargs_def first_unnamed_named)

lemma find_call_kwargs_none:
  "\<forall>k \<in> set ks. is_named k \<Longrightarrow> find_call_kwargs (CallNode f a ks) = None"
  using first_unnamed_named [of "rev ks" "[]"] by (simp add: find_call_kwargs_def)

text \<open>The resolvers read the call through the two lookups only.\<close>

lemma find_single_string_cong:
  assumes "find_in_call c1 name = find_in_call c2 name"
    and "find_call_kwargs c1 = find_call_kwargs c2"
  shows "find_single_string body c1 name = find_single_string body c2 name"
  unfolding find_single_string_def assms by (rule refl)

lemma find_install_requires_cong:
  assumes "find_in_call c1 ''install_requires'' = find_in_call c2 ''install_requires''"
    and "find_call_kwargs c1 = find_call_kwargs c2"
  shows "find_install_requires body c1 = find_install_requires body c2"
  unfolding find_install_requires_def assms by (rule refl)

lemma find_extras_require_cong:
  assumes "find_in_call c1 ''extras_require'' = find_in_call c2 ''extras_require''"
    and "find_call_kwargs c1 = find_call_kwargs c2"
  shows "find_extras_require body c1 = find_extras_require body c2"
  unfolding find_extras_require_def assms by (rule refl)

text \<open>
  Claim C9. When the keywords of a call are split at its last double-star argument
  (every keyword after it has a name), that argument is the one \<^verbatim>\<open>_find_call_kwargs\<close>
  returns, and each of the three resolvers gives the same result as on the call in which
  every earlier double-star argument has been removed: the earlier ones are ignored.
  The resolvers do use the last one: when it is a bare name bound to a mapping literal, a
  field with no direct keyword resolves to what that literal holds under the name of the
  field (a string literal for a single-string field, the strings of a list literal for
  \<^verbatim>\<open>install_requires\<close>, the entries of a mapping literal for \<^verbatim>\<open>extras_require\<close>). The
  script \<^verbatim>\<open>a = {"version": "1", "install_requires": ["x"]}\<close>,
  \<^verbatim>\<open>b = {"version": "2", "install_requires": ["y"]}\<close>, \<^verbatim>\<open>setup(**a, **b)\<close> resolves the
  version to \<^verbatim>\<open>"2"\<close> and \<^verbatim>\<open>install_requires\<close> to \<^verbatim>\<open>["y"]\<close>.
\<close>

theorem last_double_star_wins:
  "\<forall>k \<in> set post. is_named k \<Longrightarrow>
     find_call_kwargs (CallNode f a (pre @ Keyword None v # post)) = Some v \<and>
     find_single_string body (CallNode f a (pre @ Keyword None v # post)) name =
       find_single_string body (CallNode f a (filter is_named pre @ Keyword None v # post)) name \<and>
     find_install_requires body (CallNode f a (pre @ Keyword None v # post)) =
       find_install_requires body (CallNode f a (filter is_named pre @ Keyword None v # post)) \<and>
     find_extras_require body (CallNode f a (pre @ Keyword None v # post)) =
       find_extras_require body (CallNode f a (filter is_named pre @ Keyword None v # post)) \<and>
     (v = Name k \<and> find_variable_in_body body k = Some (Dict d) \<and>
      find_in_call (CallNode f a (pre @ Keyword None v # post)) name = None \<and>
      find_in_dict d name = Some (Str s) \<longrightarrow>
        find_single_string body (CallNode f a (pre @ Keyword None v # post)) name = Some s) \<and>
     (v = Name k \<and> find_variable_in_body body k = Some (Dict d) \<and>
      find_in_call (CallNode f a (pre @ Keyword None v # post)) ''install_requires'' = None \<and>
      find_in_dict d ''install_requires'' = Some (List elts) \<longrightarrow>
        find_install_requires body (CallNode f a (pre @ Keyword None v # post)) = elts_s elts) \<and>
     (v = Name k \<and> find_variable_in_body body k = Some (Dict d) \<and>
      find_in_call (CallNode f a (pre @ Keyword None v # post)) ''extras_require'' = None \<and>
      find_in_dict d ''extras_require'' = Some (Dict e) \<longrightarrow>
        find_extras_require body (CallNode f a (pre @ Keyword None v # post)) =
          extras_loop body (zip (dict_keys e) (dict_values e)) []) \<and>
     content
       [Assign [Name ''a'']
          (Dict (DictNode [Some (Str ''version''), Some (Str ''install_requires'')]
                          [Str ''1'', List [Str ''x'']])),
        Assign [Name ''b'']
          (Dict (DictNode [Some (Str ''version''), Some (Str ''install_requires'')]
                          [Str ''2'', List [Str ''y'']])),
        Expr (Call (CallNode (Name ''setup'') []
          [Keyword None (Name ''a''), Keyword None (Name ''b'')]))]
     = Inr (Some
        [(''name'', NoneF), (''version'', StrF ''2''), (''python_requires'', NoneF),
         (''install_requires'', ListF [SStr ''y'']), (''extras_require'', DictF [])])"
proof -
  assume post: "\<forall>k \<in> set post. is_named k"
  let ?c1 = "CallNode f a (pre @ Keyword None v # post)"
  let ?c2 = "CallNode f a (filter is_named pre @ Keyword None v # post)"
  have kw: "find_call_kwargs ?c1 = Some v" "find_call_kwargs ?c2 = Some v"
    using post by (rule find_call_kwargs_last)+
  have "find_in_keywords (filter is_named (pre @ Keyword None v # post)) n
          = find_in_keywords (filter is_named (filter is_named pre @ Keyword None v # post)) n" for n
    by simp
  then have fic: "find_in_call ?c1 n = find_in_call ?c2 n" for n
    unfolding find_in_call_def call_node.sel find_in_keywords_filter_named .
  have kws: "find_call_kwargs ?c1 = find_call_kwargs ?c2"
    using kw by simp
  have same: "find_call_kwargs ?c1 = Some v \<and>
     find_single_string body ?c1 name = find_single_string body ?c2 name \<and>
     find_install_requires body ?c1 = find_install_requires body ?c2 \<and>
     find_extras_require body ?c1 = find_extras_require body ?c2"
    using kw(1) find_single_string_cong [OF fic kws]
      find_install_requires_cong [OF fic kws]
      find_extras_require_cong [OF fic kws]
    by simp
  have single: "find_single_string body ?c1 name = Some s"
    if "v = Name k" "find_variable_in_body body k = Some (Dict d)"
      "find_in_call ?c1 name = None" "find_in_dict d name = Some (Str s)"
    using that kw(1) by (simp add: find_single_string_def)
  have install: "find_install_requires body ?c1 = elts_s elts"
    if "v = Name k" "find_variable_in_body body k = Some (Dict d)"
      "find_in_call ?c1 ''install_requires'' = None"
      "find_in_dict d ''install_requires'' = Some (List elts)"
    using that kw(1) by (simp add: find_install_requires_def)
  have extras: "find_extras_require body ?c1 =
      extras_loop body (zip (dict_keys e) (dict_values e)) []"
    if "v = Name k" "find_variable_in_body body k = Some (Dict d)"
      "find_in_call ?c1 ''extras_require'' = None"
      "find_in_dict d ''extras_require'' = Some (Dict e)"
    using that kw(1) by (simp add: find_extras_require_def)
  have example: "content
       [Assign [Name ''a'']
          (Dict (DictNode [Some (Str ''version''), Some (Str ''install_requires'')]
                          [Str ''1'', List [Str ''x'']])),
        Assign [Name ''b'']
          (Dict (DictNode [Some (Str ''version''), Some (Str ''install_requires'')]
                          [Str ''2'', List [Str ''y'']])),
        Expr (Call (CallNode (Name ''setup'') []
          [Keyword None (Name ''a''), Keyword None (Name ''b'')]))]
     = Inr (Some
        [(''name'', NoneF), (''version'', StrF ''2''), (''python_requires'', NoneF),
         (''install_requires'', ListF [SStr ''y'']), (''extras_require'', DictF [])])"
    by (simp add: content_def get_call_def find_single_string_def find_install_requires_def
        find_extras_require_def find_in_call_def find_call_kwargs_def find_in_dict_def
        of_string_option_def)
  from same single install extras example show ?thesis by blast
qed

text \<open>
  The theorem at \<^verbatim>\<open>a = {"version": "1"}; b = {"version": "2"}; setup(**a, **b, name="x")\<close>:
  the last double-star argument is \<^verbatim>\<open>b\<close> and the version resolves to \<^verbatim>\<open>"2"\<close>, what
  \<^verbatim>\<open>b\<close> holds. And at the same call with \<^verbatim>\<open>a\<close> alone bound: the version that only
  \<^verbatim>\<open>a\<close> holds is not found.
\<close>

theorem last_double_star_wins_witness:
  "find_call_kwargs
     (CallNode (Name ''setup'') []
        [Keyword None (Name ''a''), Keyword None (Name ''b''), Keyword (Some ''name'') (Str ''x'')])
     = Some (Name ''b'') \<and>
   find_single_string
     [S (Assign [Name ''a''] (Dict (DictNode [Some (Str ''version'')] [Str ''1'']))),
      S (Assign [Name ''b''] (Dict (DictNode [Some (Str ''version'')] [Str ''2''])))]
     (CallNode (Name ''setup'') []
        [Keyword None (Name ''a''), Keyword None (Name ''b''), Keyword (Some ''name'') (Str ''x'')])
     ''version'' = Some ''2'' \<and>
   find_single_string
     [S (Assign [Name ''a''] (Dict (DictNode [Some (Str ''version'')] [Str ''1''])))]
     (CallNode (Name ''setup'') []
        [Keyword None (Name ''a''), Keyword None (Name ''b''), Keyword (Some ''name'') (Str ''x'')])
     ''version'' = None"
proof -
  let ?a = "S (Assign [Name ''a''] (Dict (DictNode [Some (Str ''version'')] [Str ''1''])))"
  let ?d = "DictNode [Some (Str ''version'')] [Str ''2'']"
  let ?b = "S (Assign [Name ''b''] (Dict ?d))"
  let ?call = "CallNode (Name ''setup'') []
        ([Keyword None (Name ''a'')] @ Keyword None (Name ''b'') # [Keyword (Some ''name'') (Str ''x'')])"
  have h: "\<forall>k \<in> set [Keyword (Some ''name'') (Str ''x'')]. is_named k" by simp
  have hyp: "Name ''b'' = Name ''b'' \<and> find_variable_in_body [?a, ?b] ''b'' = Some (Dict ?d) \<and>
      find_in_call ?call ''version'' = None \<and> find_in_dict ?d ''version'' = Some (Str ''2'')"
    by (simp add: find_in_call_def find_in_dict_def)
  have c1: "find_call_kwargs ?call = Some (Name ''b'')"
    using last_double_star_wins [OF h, where f = "Name ''setup''" and a = "[]"
        and pre = "[Keyword None (Name ''a'')]" and v = "Name ''b''"]
    by blast
  have c2: "find_single_string [?a, ?b] ?call ''version'' = Some ''2''"
    using last_double_star_wins [OF h, where f = "Name ''setup''" and a = "[]"
        and pre = "[Keyword None (Name ''a'')]" and v = "Name ''b''" and body = "[?a, ?b]"
        and name = "''version''" and k = "''b''" and d = ?d and s = "''2''"] hyp
    by blast
  have "find_single_string [?a]
     (CallNode (Name ''setup'') []
        (filter is_named [Keyword None (Name ''a'')] @ Keyword None (Name ''b'') # [Keyword (Some ''name'') (Str ''x'')]))
     ''version'' = None"
    by (simp add: find_single_string_def find_in_call_def find_call_kwargs_def)
  then have c3: "find_single_string [?a] ?call ''version'' = None"
    using last_double_star_wins [OF h, where f = "Name ''setup''" and a = "[]"
        and pre = "[Keyword None (Name ''a'')]" and v = "Name ''b''" and body = "[?a]"
        and name = "''version''"]
    by simp
  from c1 c2 c3 show ?thesis by simp
qed

lemma find_in_pairs_miss:
  "fst p \<noteq> Some (Str name) \<Longrightarrow> find_in_pairs (p # rest) name = find_in_pairs rest name"
  by (cases "(p # rest, name)" rule: find_in_pairs.cases) auto

lemma find_in_pairs_hit:
  "find_in_pairs ((Some (Str name), v) # rest) name = Some v"
  by simp

lemma find_in_pairs_skip:
  "\<forall>p \<in> set pre. fst p \<noteq> Some (Str name) \<Longrightarrow>
     find_in_pairs (pre @ rest) name = find_in_pairs rest name"
  by (induction pre) (simp_all add: find_in_pairs_miss del: find_in_pairs.simps)

lemma find_in_pairs_None:
  "find_in_pairs ps name = None \<longleftrightarrow> (\<forall>p \<in> set ps. fst p \<noteq> Some (Str name))"
proof (induction ps)
  case Nil
  show ?case by simp
next
  case (Cons p ps)
  show ?case
  proof (cases "fst p = Some (Str name)")
    case True
    then obtain v where "p = (Some (Str name), v)" by (cases p) auto
    then show ?thesis by simp
  next
    case False
    with Cons show ?thesis by (simp add: find_in_pairs_miss del: find_in_pairs.simps)
  qed
qed

lemma find_in_pairs_filter:
  "find_in_pairs (filter is_str_key ps) name = find_in_pairs ps name"
proof (induction ps)
  case Nil
  show ?case by simp
next
  case (Cons p ps)
  then show ?case by (cases p rule: is_str_key.cases) simp_all
qed

text \<open>
  Claim C10. The lookup of a field in a mapping literal returns nothing exactly when no
  entry has the string literal of the field name as its key; it returns the value of the
  first entry with that key; and the entries whose key is no string literal can be taken
  out of the literal without changing the answer.
\<close>

theorem find_in_dict_literal_keys:
  "(find_in_dict d name = None \<longleftrightarrow>
      (\<forall>p \<in> set (zip (dict_keys d) (dict_values d)). fst p \<noteq> Some (Str name))) \<and>
   (\<forall>pre v post.
      zip (dict_keys d) (dict_values d) = pre @ (Some (Str name), v) # post \<and>
      (\<forall>p \<in> set pre. fst p \<noteq> Some (Str name)) \<longrightarrow> find_in_dict d name = Some v) \<and>
   find_in_dict d name =
     find_in_pairs (filter is_str_key (zip (dict_keys d) (dict_values d))) name"
proof (intro conjI allI impI)
  show "find_in_dict d name = None \<longleftrightarrow>
      (\<forall>p \<in> set (zip (dict_keys d) (dict_values d)). fst p \<noteq> Some (Str name))"
    by (simp add: find_in_dict_def find_in_pairs_None)
next
  fix pre v post
  assume "zip (dict_keys d) (dict_values d) = pre @ (Some (Str name), v) # post \<and>
      (\<forall>p \<in> set pre. fst p \<noteq> Some (Str name))"
  then show "find_in_dict d name = Some v"
    by (simp add: find_in_dict_def find_in_pairs_skip find_in_pairs_hit
        del: find_in_pairs.simps)
next
  show "find_in_dict d name =
     find_in_pairs (filter is_str_key (zip (dict_keys d) (dict_values d))) name"
    by (simp add: find_in_dict_def find_in_pairs_filter)
qed

text \<open>
  The theorem at \<^verbatim>\<open>{version: "0", **more, "name": "pkg", "version": "1", "version": "2"}\<close>
  and at \<^verbatim>\<open>{version: "0", **more}\<close>, looking for \<^verbatim>\<open>version\<close>.
\<close>

theorem find_in_dict_literal_keys_witness:
  "find_in_dict
     (DictNode [Some (Name ''version''), None, Some (Str ''name''), Some (Str ''version''),
                Some (Str ''version'')]
               [Str ''0'', Name ''more'', Str ''pkg'', Str ''1'', Str ''2''])
     ''version'' = Some (Str ''1'') \<and>
   find_in_dict (DictNode [Some (Name ''version''), None] [Str ''0'', Name ''more'']) ''version''
     = None"
proof -
  let ?d = "DictNode [Some (Name ''version''), None, Some (Str ''name''), Some (Str ''version''),
                Some (Str ''version'')]
               [Str ''0'', Name ''more'', Str ''pkg'', Str ''1'', Str ''2'']"
  let ?e = "DictNode [Some (Name ''version''), None] [Str ''0'', Name ''more'']"
  have h1: "zip (dict_keys ?d) (dict_values ?d) =
      [(Some (Name ''version''), Str ''0''), (None, Name ''more''), (Some (Str ''name''), Str ''pkg'')]
        @ (Some (Str ''version''), Str ''1'') # [(Some (Str ''version''), Str ''2'')] \<and>
      (\<forall>p \<in> set [(Some (Name ''version''), Str ''0''), (None, Name ''more''),
                  (Some (Str ''name''), Str ''pkg'')]. fst p \<noteq> Some (Str ''version''))"
    by simp
  have h2: "\<forall>p \<in> set (zip (dict_keys ?e) (dict_values ?e)). fst p \<noteq> Some (Str ''version'')"
    by simp
  from h1 have c1: "find_in_dict ?d ''version'' = Some (Str ''1'')"
    using find_in_dict_literal_keys [of ?d "''version''"] by blast
  from h2 have c2: "find_in_dict ?e ''version'' = None"
    using find_in_dict_literal_keys [of ?e "''version''"] by blast
  from c1 c2 show ?thesis by simp
qed

section \<open>The flattener against its description\<close>

lemma filter_get_body:
  "filter (\<lambda>n. \<not> is_if_node n) (get_body tree) = spec_flatten tree"
  by (induction tree rule: get_body.induct) simp_all

lemma if_node_not_setup: "is_if_node n \<Longrightarrow> \<not> is_setup_node n"
  by (cases n rule: is_if_node.cases) simp_all

lemma if_node_not_assigns: "is_if_node n \<Longrightarrow> \<not> assigns name n"
  by (cases n rule: is_if_node.cases) simp_all

lemma get_call_loop_filter_if:
  "get_call_loop (filter (\<lambda>n. \<not> is_if_node n) ns) = get_call_loop ns"
proof (induction ns)
  case Nil
  show ?case by simp
next
  case (Cons n ns)
  show ?case
  proof (cases "is_if_node n")
    case True
    with Cons show ?thesis
      by (simp add: get_call_loop_miss if_node_not_setup del: get_call_loop.simps)
  next
    case False
    note notif = this
    show ?thesis
    proof (cases "is_setup_node n")
      case True
      then obtain c where "n = E (Call c)" "is_setup_call c"
        using is_setup_nodeE by blast
      then show ?thesis by (simp add: get_call_loop_hit del: get_call_loop.simps)
    next
      case False
      with notif Cons show ?thesis
        by (simp add: get_call_loop_miss del: get_call_loop.simps)
    qed
  qed
qed

lemma find_variable_filter_if:
  "find_variable_in_body (filter (\<lambda>n. \<not> is_if_node n) ns) name = find_variable_in_body ns name"
proof (induction ns)
  case Nil
  show ?case by simp
next
  case (Cons n ns)
  show ?case
  proof (cases "is_if_node n")
    case True
    with Cons show ?thesis
      by (simp add: find_variable_miss if_node_not_assigns del: find_variable_in_body.simps)
  next
    case False
    note notif = this
    show ?thesis
    proof (cases "assigns name n")
      case True
      then obtain targets v where "n = S (Assign targets v)" "Name name \<in> set targets"
        by (cases "(name, n)" rule: assigns.cases) auto
      then show ?thesis by (simp add: find_variable_hit del: find_variable_in_body.simps)
    next
      case False
      with notif Cons show ?thesis
        by (simp add: find_variable_miss del: find_variable_in_body.simps)
    qed
  qed
qed

text \<open>
  Claim C6 at \<^verbatim>\<open>if debug: v = "1"\<close>. The claim has the body of the \<^verbatim>\<open>if\<close> statement in
  the place of the statement, as the body of a function definition is: the described
  sequence is the assignment alone. The flattener yields the assignment and then the
  \<^verbatim>\<open>if\<close> statement itself, because the branch of \<^verbatim>\<open>ast.If\<close> lacks the \<^verbatim>\<open>continue\<close>
  that the branch of \<^verbatim>\<open>ast.FunctionDef\<close> has.
\<close>

theorem get_body_yields_if:
  "get_body [If (Name ''debug'') [Assign [Name ''v''] (Str ''1'')] []]
     = [S (Assign [Name ''v''] (Str ''1'')),
        S (If (Name ''debug'') [Assign [Name ''v''] (Str ''1'')] [])] \<and>
   spec_flatten [If (Name ''debug'') [Assign [Name ''v''] (Str ''1'')] []]
     = [S (Assign [Name ''v''] (Str ''1''))] \<and>
   get_body [If (Name ''debug'') [Assign [Name ''v''] (Str ''1'')] []]
     \<noteq> spec_flatten [If (Name ''debug'') [Assign [Name ''v''] (Str ''1'')] []]"
  by simp

text \<open>
  The \<^verbatim>\<open>if\<close> statements that are yielded in this way are the only difference from the
  described sequence, and no consumer of the flattened body sees them: the call locator
  and the variable lookup answer on the one as on the other, since an \<^verbatim>\<open>if\<close> statement
  is neither a call nor an assignment.
\<close>

lemma if_nodes_inert:
  "filter (\<lambda>n. \<not> is_if_node n) (get_body tree) = spec_flatten tree \<and>
   get_call tree = get_call_loop (spec_flatten tree) \<and>
   find_variable_in_body (get_body tree) name = find_variable_in_body (spec_flatten tree) name"
proof (intro conjI)
  show "filter (\<lambda>n. \<not> is_if_node n) (get_body tree) = spec_flatten tree"
    by (rule filter_get_body)
  show "get_call tree = get_call_loop (spec_flatten tree)"
    unfolding get_call_def filter_get_body [symmetric] get_call_loop_filter_if ..
  show "find_variable_in_body (get_body tree) name = find_variable_in_body (spec_flatten tree) name"
    unfolding filter_get_body [symmetric] find_variable_filter_if ..
qed

section \<open>Elements and keys with no attribute s\<close>

text \<open>
  Reading \<^verbatim>\<open>.s\<close> from the elements of a list returns exactly when every element is an
  \<^verbatim>\<open>ast.Str\<close>, an \<^verbatim>\<open>ast.Bytes\<close> or an \<^verbatim>\<open>ast.Constant\<close>, and raises
  \<^verbatim>\<open>AttributeError\<close> otherwise; a list literal passed as \<^verbatim>\<open>install_requires\<close> is read
  in this way.
\<close>

lemma attr_s_error: "attr_s e = Inl err \<Longrightarrow> err = AttributeError"
  by (cases e) simp_all

lemma elts_s_raises_iff:
  "elts_s els = Inl AttributeError \<longleftrightarrow> (\<exists>e \<in> set els. attr_s e = Inl AttributeError)"
proof (induction els)
  case Nil
  show ?case by simp
next
  case (Cons e els)
  then show ?case
    by (auto split: sum.splits dest: attr_s_error)
qed

lemma elts_s_returns_iff:
  "(\<exists>ss. elts_s els = Inr ss) \<longleftrightarrow>
     (\<forall>e \<in> set els. (\<exists>s. e = Str s \<or> e = Bytes s) \<or> (\<exists>v. e = Constant v))"
proof (induction els)
  case Nil
  show ?case by simp
next
  case (Cons e els)
  have "(\<exists>v. attr_s e = Inr v) \<longleftrightarrow> (\<exists>s. e = Str s \<or> e = Bytes s) \<or> (\<exists>v. e = Constant v)"
    by (cases e) simp_all
  with Cons show ?case
    by (auto split: sum.splits)
qed

lemma find_install_requires_literal:
  "find_in_call call ''install_requires'' = Some (List elts) \<Longrightarrow>
     find_install_requires body call = elts_s elts"
  by (simp add: find_install_requires_def)

text \<open>
  Claim C2 at \<^verbatim>\<open>setup(install_requires=[dep])\<close> and at
  \<^verbatim>\<open>setup(extras_require={group: ["pytest"]})\<close>: the list element \<^verbatim>\<open>dep\<close> and the key
  \<^verbatim>\<open>group\<close> are names, \<^verbatim>\<open>.s\<close> is read from them with no check of the node class, and
  the resolver raises \<^verbatim>\<open>AttributeError\<close> where the claim has an empty collection.
\<close>

theorem resolver_raises:
  "find_install_requires []
     (CallNode (Name ''setup'') [] [Keyword (Some ''install_requires'') (List [Name ''dep''])])
     = Inl AttributeError \<and>
   find_extras_require []
     (CallNode (Name ''setup'') []
        [Keyword (Some ''extras_require'') (Dict (DictNode [Some (Name ''group'')] [List [Str ''pytest'']]))])
     = Inl AttributeError"
  by (simp add: find_install_requires_def find_extras_require_def find_in_call_def)

text \<open>
  Claim C1 at \<^verbatim>\<open>setup(name="pkg", install_requires=[dep])\<close>: the entry-point call is
  located, and the result is neither the sentinel nor a mapping, because the failure of
  the resolver of \<^verbatim>\<open>install_requires\<close> is the failure of the whole.
\<close>

theorem content_raises:
  "get_call
     [Expr (Call (CallNode (Name ''setup'') []
        [Keyword (Some ''name'') (Str ''pkg''),
         Keyword (Some ''install_requires'') (List [Name ''dep''])]))]
     = Some (CallNode (Name ''setup'') []
        [Keyword (Some ''name'') (Str ''pkg''),
         Keyword (Some ''install_requires'') (List [Name ''dep''])]) \<and>
   content
     [Expr (Call (CallNode (Name ''setup'') []
        [Keyword (Some ''name'') (Str ''pkg''),
         Keyword (Some ''install_requires'') (List [Name ''dep''])]))]
     = Inl AttributeError"
  by (simp add: content_def get_call_def find_install_requires_def find_in_call_def)

text \<open>
  Apart from that failure the assembly is as claim C1 has it: the result is the sentinel
  exactly when no call is located; with a call located and both collection resolvers
  returning, it is the mapping of the five keys to what the resolvers returned; and it
  fails only when one of these two resolvers does.
\<close>

lemma content_None_iff: "content tree = Inr None \<longleftrightarrow> get_call tree = None"
  by (simp add: content_def Let_def split: option.splits sum.splits)

lemma content_returns:
  "get_call tree = Some call \<Longrightarrow>
   find_install_requires (get_body tree) call = Inr ir \<Longrightarrow>
   find_extras_require (get_body tree) call = Inr er \<Longrightarrow>
   content tree = Inr (Some
     [(''name'', of_string_option (find_single_string (get_body tree) call ''name'')),
      (''version'', of_string_option (find_single_string (get_body tree) call ''version'')),
      (''python_requires'',
         of_string_option (find_single_string (get_body tree) call ''python_requires'')),
      (''install_requires'', ListF ir),
      (''extras_require'', DictF er)])"
  by (simp add: content_def Let_def)

lemma content_fails:
  "get_call tree = Some call \<Longrightarrow>
   content tree = Inl err \<longleftrightarrow>
     find_install_requires (get_body tree) call = Inl err \<or>
     (\<exists>ir. find_install_requires (get_body tree) call = Inr ir \<and>
        find_extras_require (get_body tree) call = Inl err)"
  by (auto simp add: content_def Let_def split: sum.splits)

section \<open>The double-star hop\<close>

lemma find_single_string_other_shape:
  "find_in_call call name = None \<Longrightarrow> find_call_kwargs call = Some (Name k) \<Longrightarrow>
   \<not> is_dict_shaped (find_variable_in_body body k) \<Longrightarrow>
     find_single_string body call name = None"
  by (cases "find_variable_in_body body k" rule: is_dict_shaped.cases)
     (auto simp: find_single_string_def split: expr.splits)

lemma find_install_requires_other_shape:
  "find_in_call call ''install_requires'' = None \<Longrightarrow> find_call_kwargs call = Some (Name k) \<Longrightarrow>
   \<not> is_dict_shaped (find_variable_in_body body k) \<Longrightarrow>
     find_install_requires body call = Inr []"
  by (cases "find_variable_in_body body k" rule: is_dict_shaped.cases)
     (auto simp: find_install_requires_def split: expr.splits)

lemma find_extras_require_other_shape:
  "find_in_call call ''extras_require'' = None \<Longrightarrow> find_call_kwargs call = Some (Name k) \<Longrightarrow>
   \<not> is_dict_shaped (find_variable_in_body body k) \<Longrightarrow>
     find_extras_require body call = Inr []"
  by (cases "find_variable_in_body body k" rule: is_dict_shaped.cases)
     (auto simp: find_extras_require_def split: expr.splits)

lemma find_single_string_dict_call:
  "find_in_call call name = None \<Longrightarrow> find_call_kwargs call = Some (Name k) \<Longrightarrow>
   find_variable_in_body body k = Some (Call c) \<Longrightarrow> call_func c = Name ''dict'' \<Longrightarrow>
     find_single_string body call name =
       (case find_in_call c name of
          None \<Rightarrow> None
        | Some v \<Rightarrow> find_single_string body (CallNode (Name ''setup'') [] [Keyword (Some name) v]) name)"
  by (simp add: find_single_string_def find_in_call_def [of "CallNode _ _ _"] split: option.splits)

lemma find_install_requires_dict_call:
  "find_in_call call ''install_requires'' = None \<Longrightarrow> find_call_kwargs call = Some (Name k) \<Longrightarrow>
   find_variable_in_body body k = Some (Call c) \<Longrightarrow> call_func c = Name ''dict'' \<Longrightarrow>
     find_install_requires body call =
       (case find_in_call c ''install_requires'' of
          None \<Rightarrow> Inr []
        | Some v \<Rightarrow> find_install_requires body
            (CallNode (Name ''setup'') [] [Keyword (Some ''install_requires'') v]))"
  by (simp add: find_install_requires_def find_in_call_def [of "CallNode _ _ _"] split: option.splits)

lemma find_extras_require_dict_call:
  "find_in_call call ''extras_require'' = None \<Longrightarrow> find_call_kwargs call = Some (Name k) \<Longrightarrow>
   find_variable_in_body body k = Some (Call c) \<Longrightarrow> call_func c = Name ''dict'' \<Longrightarrow>
     find_extras_require body call =
       (case find_in_call c ''extras_require'' of
          None \<Rightarrow> Inr []
        | Some v \<Rightarrow> find_extras_require body
            (CallNode (Name ''setup'') [] [Keyword (Some ''extras_require'') v]))"
  by (simp add: find_extras_require_def find_in_call_def [of "CallNode _ _ _"] split: option.splits)


text \<open>
  Claim C3. Let the double-star argument of the entry-point call be the bare name \<open>k\<close>.
  When \<open>k\<close> is bound to anything but a mapping literal or a call of the bare name
  \<^verbatim>\<open>dict\<close> (or is not bound at all), a field with no direct keyword resolves to absent
  (single string) or empty (list, mapping). When \<open>k\<close> is bound to a call \<open>c\<close> of
  \<^verbatim>\<open>dict\<close>, such a field is looked up among the keywords of \<open>c\<close>: with none of that
  name the field is absent or empty, and with the expression \<open>v\<close> under that name the
  field resolves as it does when \<open>v\<close> is passed to the entry point directly. The script
  \<^verbatim>\<open>kwargs = dict(install_requires=["a","b"]); setup(**kwargs)\<close> resolves
  \<^verbatim>\<open>install_requires\<close> to \<^verbatim>\<open>["a","b"]\<close>.
\<close>

theorem double_star_hop:
  "(find_call_kwargs call = Some (Name k) \<and> \<not> is_dict_shaped (find_variable_in_body body k) \<longrightarrow>
      (find_in_call call name = None \<longrightarrow> find_single_string body call name = None) \<and>
      (find_in_call call ''install_requires'' = None \<longrightarrow>
         find_install_requires body call = Inr []) \<and>
      (find_in_call call ''extras_require'' = None \<longrightarrow>
         find_extras_require body call = Inr [])) \<and>
   (find_call_kwargs call = Some (Name k) \<and> find_variable_in_body body k = Some (Call c) \<and>
    call_func c = Name ''dict'' \<longrightarrow>
      (find_in_call call name = None \<longrightarrow>
         find_single_string body call name =
           (case find_in_call c name of
              None \<Rightarrow> None
            | Some v \<Rightarrow>
                find_single_string body
                  (CallNode (Name ''setup'') [] [Keyword (Some name) v]) name)) \<and>
      (find_in_call call ''install_requires'' = None \<longrightarrow>
         find_install_requires body call =
           (case find_in_call c ''install_requires'' of
              None \<Rightarrow> Inr []
            | Some v \<Rightarrow>
                find_install_requires body
                  (CallNode (Name ''setup'') [] [Keyword (Some ''install_requires'') v]))) \<and>
      (find_in_call call ''extras_require'' = None \<longrightarrow>
         find_extras_require body call =
           (case find_in_call c ''extras_require'' of
              None \<Rightarrow> Inr []
            | Some v \<Rightarrow>
                find_extras_require body
                  (CallNode (Name ''setup'') [] [Keyword (Some ''extras_require'') v])))) \<and>
   content
     [Assign [Name ''kwargs'']
        (Call (CallNode (Name ''dict'') []
           [Keyword (Some ''install_requires'') (List [Str ''a'', Str ''b''])])),
      Expr (Call (CallNode (Name ''setup'') [] [Keyword None (Name ''kwargs'')]))]
   = Inr (Some
      [(''name'', NoneF), (''version'', NoneF), (''python_requires'', NoneF),
       (''install_requires'', ListF [SStr ''a'', SStr ''b'']), (''extras_require'', DictF [])])"
proof (intro conjI impI; (elim conjE)?)
  show "content
     [Assign [Name ''kwargs'']
        (Call (CallNode (Name ''dict'') []
           [Keyword (Some ''install_requires'') (List [Str ''a'', Str ''b''])])),
      Expr (Call (CallNode (Name ''setup'') [] [Keyword None (Name ''kwargs'')]))]
   = Inr (Some
      [(''name'', NoneF), (''version'', NoneF), (''python_requires'', NoneF),
       (''install_requires'', ListF [SStr ''a'', SStr ''b'']), (''extras_require'', DictF [])])"
    by (simp add: content_def get_call_def find_single_string_def find_install_requires_def
        find_extras_require_def find_in_call_def find_call_kwargs_def of_string_option_def)
qed ((rule find_single_string_other_shape find_install_requires_other_shape
       find_extras_require_other_shape find_single_string_dict_call
       find_install_requires_dict_call find_extras_require_dict_call; assumption)+)

text \<open>
  The theorem at \<^verbatim>\<open>setup(**kwargs)\<close> with \<^verbatim>\<open>kwargs\<close> bound to \<^verbatim>\<open>make(name="x")\<close>, to
  \<^verbatim>\<open>"x"\<close>, to nothing, and to three calls of \<^verbatim>\<open>dict\<close>.
\<close>

theorem double_star_hop_witness:
  "find_single_string
     [S (Assign [Name ''kwargs''] (Call (CallNode (Name ''make'') [] [Keyword (Some ''name'') (Str ''x'')]))),
      E (Call (CallNode (Name ''setup'') [] [Keyword None (Name ''kwargs'')]))]
     (CallNode (Name ''setup'') [] [Keyword None (Name ''kwargs'')]) ''name'' = None \<and>
   find_install_requires
     [S (Assign [Name ''kwargs''] (Str ''x'')),
      E (Call (CallNode (Name ''setup'') [] [Keyword None (Name ''kwargs'')]))]
     (CallNode (Name ''setup'') [] [Keyword None (Name ''kwargs'')]) = Inr [] \<and>
   find_extras_require
     [E (Call (CallNode (Name ''setup'') [] [Keyword None (Name ''kwargs'')]))]
     (CallNode (Name ''setup'') [] [Keyword None (Name ''kwargs'')]) = Inr [] \<and>
   find_single_string
     [S (Assign [Name ''kwargs''] (Call (CallNode (Name ''dict'') [] [Keyword (Some ''name'') (Str ''x'')]))),
      E (Call (CallNode (Name ''setup'') [] [Keyword None (Name ''kwargs'')]))]
     (CallNode (Name ''setup'') [] [Keyword None (Name ''kwargs'')]) ''name'' = Some ''x'' \<and>
   find_install_requires
     [S (Assign [Name ''kwargs''] (Call (CallNode (Name ''dict'') []
          [Keyword (Some ''install_requires'') (List [Str ''a'', Str ''b''])]))),
      E (Call (CallNode (Name ''setup'') [] [Keyword None (Name ''kwargs'')]))]
     (CallNode (Name ''setup'') [] [Keyword None (Name ''kwargs'')])
     = Inr [SStr ''a'', SStr ''b''] \<and>
   find_extras_require
     [S (Assign [Name ''kwargs''] (Call (CallNode (Name ''dict'') []
          [Keyword (Some ''extras_require'')
             (Dict (DictNode [Some (Str ''test'')] [List [Str ''pytest'']]))]))),
      E (Call (CallNode (Name ''setup'') [] [Keyword None (Name ''kwargs'')]))]
     (CallNode (Name ''setup'') [] [Keyword None (Name ''kwargs'')])
     = Inr [(SStr ''test'', [SStr ''pytest''])]"
proof -
  let ?call = "CallNode (Name ''setup'') [] [Keyword None (Name ''kwargs'')]"
  let ?make = "CallNode (Name ''make'') [] [Keyword (Some ''name'') (Str ''x'')]"
  let ?d1 = "CallNode (Name ''dict'') [] [Keyword (Some ''name'') (Str ''x'')]"
  let ?d2 = "CallNode (Name ''dict'') []
          [Keyword (Some ''install_requires'') (List [Str ''a'', Str ''b''])]"
  let ?d3 = "CallNode (Name ''dict'') []
          [Keyword (Some ''extras_require'')
             (Dict (DictNode [Some (Str ''test'')] [List [Str ''pytest'']]))]"
  let ?b1 = "[S (Assign [Name ''kwargs''] (Call ?make)), E (Call ?call)]"
  let ?b2 = "[S (Assign [Name ''kwargs''] (Str ''x'')), E (Call ?call)]"
  let ?b3 = "[E (Call ?call)]"
  let ?b4 = "[S (Assign [Name ''kwargs''] (Call ?d1)), E (Call ?call)]"
  let ?b5 = "[S (Assign [Name ''kwargs''] (Call ?d2)), E (Call ?call)]"
  let ?b6 = "[S (Assign [Name ''kwargs''] (Call ?d3)), E (Call ?call)]"
  have kw: "find_call_kwargs ?call = Some (Name ''kwargs'')"
    by (simp add: find_call_kwargs_def)
  have no: "find_in_call ?call n = None" for n
    by (simp add: find_in_call_def)
  have s1: "\<not> is_dict_shaped (find_variable_in_body ?b1 ''kwargs'')"
    and s2: "\<not> is_dict_shaped (find_variable_in_body ?b2 ''kwargs'')"
    and s3: "\<not> is_dict_shaped (find_variable_in_body ?b3 ''kwargs'')"
    by simp_all
  have v4: "find_variable_in_body ?b4 ''kwargs'' = Some (Call ?d1)"
    and v5: "find_variable_in_body ?b5 ''kwargs'' = Some (Call ?d2)"
    and v6: "find_variable_in_body ?b6 ''kwargs'' = Some (Call ?d3)"
    by simp_all
  have c1: "find_single_string ?b1 ?call ''name'' = None"
    using double_star_hop [of ?call "''kwargs''" ?b1 "''name''"] kw no s1 by blast
  have c2: "find_install_requires ?b2 ?call = Inr []"
    using double_star_hop [of ?call "''kwargs''" ?b2 "''name''"] kw no s2 by blast
  have c3: "find_extras_require ?b3 ?call = Inr []"
    using double_star_hop [of ?call "''kwargs''" ?b3 "''name''"] kw no s3 by blast
  have "find_single_string ?b4 ?call ''name'' =
          (case find_in_call ?d1 ''name'' of None \<Rightarrow> None
           | Some v \<Rightarrow> find_single_string ?b4
               (CallNode (Name ''setup'') [] [Keyword (Some ''name'') v]) ''name'')"
    using double_star_hop [of ?call "''kwargs''" ?b4 "''name''" ?d1] kw no v4 by simp
  then have c4: "find_single_string ?b4 ?call ''name'' = Some ''x''"
    by (simp add: find_in_call_def find_single_string_def)
  have "find_install_requires ?b5 ?call =
          (case find_in_call ?d2 ''install_requires'' of None \<Rightarrow> Inr []
           | Some v \<Rightarrow> find_install_requires ?b5
               (CallNode (Name ''setup'') [] [Keyword (Some ''install_requires'') v]))"
    using double_star_hop [of ?call "''kwargs''" ?b5 "''name''" ?d2] kw no v5 by simp
  then have c5: "find_install_requires ?b5 ?call = Inr [SStr ''a'', SStr ''b'']"
    by (simp add: find_in_call_def find_install_requires_def)
  have "find_extras_require ?b6 ?call =
          (case find_in_call ?d3 ''extras_require'' of None \<Rightarrow> Inr []
           | Some v \<Rightarrow> find_extras_require ?b6
               (CallNode (Name ''setup'') [] [Keyword (Some ''extras_require'') v]))"
    using double_star_hop [of ?call "''kwargs''" ?b6 "''name''" ?d3] kw no v6 by simp
  then have c6: "find_extras_require ?b6 ?call = Inr [(SStr ''test'', [SStr ''pytest''])]"
    by (simp add: find_in_call_def find_extras_require_def)
  from c1 c2 c3 c4 c5 c6 show ?thesis by simp
qed

section \<open>The message of the command reader\<close>

lemma split_nl_not_Nil: "split_nl t \<noteq> []"
  by (induction t) simp_all

lemma split_nl_no_nl: "10 \<notin> set t \<Longrightarrow> split_nl t = [t]"
  by (induction t) auto

lemma split_nl_has_nl: "10 \<in> set t \<Longrightarrow> tl (split_nl t) \<noteq> []"
  by (induction t) (auto simp: split_nl_not_Nil)

lemma last_split_nl:
  "last (split_nl t) = rev (takeWhile (\<lambda>c. c \<noteq> 10) (rev t))"
proof (induction t)
  case Nil
  show ?case by simp
next
  case (Cons c cs)
  show ?case
  proof (cases "c = 10")
    case True
    then show ?thesis
      using Cons by (simp add: split_nl_not_Nil takeWhile_append)
  next
    case False
    note c = this
    show ?thesis
    proof (cases "10 \<in> set cs")
      case True
      then have "tl (split_nl cs) \<noteq> []" by (rule split_nl_has_nl)
      then have "last ((c # hd (split_nl cs)) # tl (split_nl cs)) = last (split_nl cs)"
        by (metis last_ConsR last_tl)
      with c True Cons show ?thesis
        by (auto simp add: takeWhile_append)
    next
      case False
      with c show ?thesis by (simp add: split_nl_no_nl takeWhile_append)
    qed
  qed
qed

lemma last_split_nl_no_nl: "10 \<notin> set (last (split_nl t))"
  unfolding last_split_nl using set_takeWhileD by fastforce

lemma last_split_nl_suffix:
  "\<exists>pre. t = pre @ last (split_nl t) \<and> (pre = [] \<or> last pre = 10)"
proof -
  let ?P = "\<lambda>c::nat. c \<noteq> 10"
  let ?d = "dropWhile ?P (rev t)"
  have "t = rev (takeWhile ?P (rev t) @ ?d)"
    by (simp only: takeWhile_dropWhile_id rev_rev_ident)
  also have "\<dots> = rev ?d @ rev (takeWhile ?P (rev t))"
    by (simp only: rev_append)
  finally have t: "t = rev ?d @ last (split_nl t)"
    by (simp only: last_split_nl)
  have "?d = [] \<or> hd ?d = 10" using hd_dropWhile [of ?P "rev t"] by auto
  then have "rev ?d = [] \<or> last (rev ?d) = 10" by (auto simp: last_rev)
  with t show ?thesis by blast
qed

lemma isspace_nl: "isspace 10"
  by (simp add: isspace_def)

lemma strip_end: "strip t = [] \<or> \<not> isspace (last (strip t))"
proof -
  let ?u = "dropWhile isspace (rev (dropWhile isspace t))"
  have s: "strip t = rev ?u" by (simp add: strip_def)
  show ?thesis
  proof (cases "?u = []")
    case True
    with s show ?thesis by simp
  next
    case False
    then have "\<not> isspace (hd ?u)" by (rule hd_dropWhile)
    moreover from False have "last (rev ?u) = hd ?u" by (simp add: last_rev)
    ultimately show ?thesis using s by simp
  qed
qed

lemma stream_lines_strip: "stream_lines (strip t) = split_nl (strip t)"
  using strip_end [of t] isspace_nl by (auto simp: stream_lines_def)

lemma last_line_strip: "last_line (strip t) = last (split_nl (strip t))"
  by (simp add: last_line_def stream_lines_strip)

text \<open>
  Claim C8 as it is stated fails when the error stream ends in white space: for the
  stream \<^verbatim>\<open>"a\nb "\<close> (code points 97, 10, 98, 32) the last line is \<^verbatim>\<open>"b "\<close> and the
  message is \<^verbatim>\<open>"b"\<close>. And when the bytes of the stream are not UTF-8, what is raised
  is the \<^verbatim>\<open>UnicodeDecodeError\<close> of \<^verbatim>\<open>decode\<close>, which carries no line of the stream.
\<close>

theorem cmd_content_message_counterexample:
  "cmd_content \<lparr>returncode = 1, stderr_decode = Inr [97, 10, 98, 32]\<rparr> (Inr ())
     = Inl (RuntimeError [98]) \<and>
   last_line [97, 10, 98, 32] = [98, 32] \<and>
   cmd_content \<lparr>returncode = 1, stderr_decode = Inr [97, 10, 98, 32]\<rparr> (Inr ())
     \<noteq> Inl (RuntimeError (last_line [97, 10, 98, 32])) \<and>
   cmd_content \<lparr>returncode = 1, stderr_decode = Inl UnicodeDecodeError\<rparr> (Inr ())
     = Inl UnicodeDecodeError"
  by (simp add: cmd_content_def strip_def isspace_def last_line_def stream_lines_def)

text \<open>
  Claim C8, amended. For a child that exits with a non-zero return code and whose error
  stream decodes, the reader raises \<^verbatim>\<open>RuntimeError\<close> with the last line of the
  stream after white space has been stripped from both ends of the whole stream: the
  message has no line feed and is what follows the last line feed of the stripped text
  (all of it when there is none). When the stream does not decode, the error of the
  decoding is raised.
\<close>

theorem cmd_content_nonzero:
  "returncode result \<noteq> 0 \<Longrightarrow>
     (\<forall>t. stderr_decode result = Inr t \<longrightarrow>
        cmd_content result loaded = Inl (RuntimeError (last_line (strip t))) \<and>
        10 \<notin> set (last_line (strip t)) \<and>
        (\<exists>pre. strip t = pre @ last_line (strip t) \<and> (pre = [] \<or> last pre = 10))) \<and>
     (\<forall>err. stderr_decode result = Inl err \<longrightarrow> cmd_content result loaded = Inl err)"
  by (simp add: cmd_content_def last_line_strip last_split_nl_no_nl last_split_nl_suffix)

text \<open>
  The theorem at return code 1 with the stream \<^verbatim>\<open>" a\n b \n\n"\<close>, where the message is
  \<^verbatim>\<open>" b"\<close>, and at return code 2 with a stream that does not decode.
\<close>

theorem cmd_content_nonzero_witness:
  "cmd_content \<lparr>returncode = 1, stderr_decode = Inr [32, 97, 10, 32, 98, 32, 10, 10]\<rparr> (Inr ())
     = Inl (RuntimeError [32, 98]) \<and>
   cmd_content \<lparr>returncode = 2, stderr_decode = Inl UnicodeDecodeError\<rparr> (Inr ())
     = Inl UnicodeDecodeError"
proof -
  let ?r = "\<lparr>returncode = 1, stderr_decode = Inr [32, 97, 10, 32, 98, 32, 10, 10]\<rparr>"
  let ?q = "\<lparr>returncode = 2, stderr_decode = Inl UnicodeDecodeError\<rparr>"
  have h: "returncode ?r \<noteq> 0" "returncode ?q \<noteq> 0" by simp_all
  have s: "strip [32, 97, 10, 32, 98, 32, 10, 10] = [97, 10, 32, 98]"
    by (simp add: strip_def isspace_def)
  have l: "last_line [97, 10, 32, 98] = [32, 98]"
    by (simp add: last_line_def stream_lines_def)
  have "cmd_content ?r (Inr ()) = Inl (RuntimeError (last_line (strip [32, 97, 10, 32, 98, 32, 10, 10])))"
    using cmd_content_nonzero [OF h(1), of "Inr ()"] by simp
  moreover have "cmd_content ?q (Inr ()) = Inl UnicodeDecodeError"
    using cmd_content_nonzero [OF h(2), of "Inr ()"] by simp
  ultimately show ?thesis by (simp add: s l)
qed

section \<open>What the resolved fields depend on\<close>

















end
